theory Spec2Isabelle
  imports Complex_Main "HOL-Library.Word"
begin

section \<open>JavaScript strings\<close>

text \<open>
  A JavaScript string is a sequence of UTF-16 code units; \<open>trim\<close>, the regular
  expressions of \<open>formatMessage\<close> (none has the \<open>u\<close> flag) and string concatenation
  all work on code units. An ASCII literal of the source is written \<open>js ''...''\<close>; a
  literal with characters outside ASCII is written as the list of its code units.
\<close>

type_synonym jschar = "16 word"
type_synonym jsstring = "jschar list"

definition js :: "string \<Rightarrow> jsstring" where
  "js s = map of_char s"

definition chNewline :: jschar where "chNewline = 0x0A"
definition chStar :: jschar where "chStar = 0x2A"
definition chBacktick :: jschar where "chBacktick = 0x60"
definition chLt :: jschar where "chLt = 0x3C"

text \<open>
  \<open>String.prototype.trim\<close> removes the WhiteSpace and LineTerminator code points of
  ECMAScript from both ends.
\<close>

definition isWhiteSpace :: "jschar \<Rightarrow> bool" where
  "isWhiteSpace c \<longleftrightarrow>
     c = 0x09 \<or> c = 0x0A \<or> c = 0x0B \<or> c = 0x0C \<or> c = 0x0D \<or> c = 0x20 \<or> c = 0xA0
     \<or> c = 0x1680 \<or> (0x2000 \<le> c \<and> c \<le> 0x200A) \<or> c = 0x2028 \<or> c = 0x2029
     \<or> c = 0x202F \<or> c = 0x205F \<or> c = 0x3000 \<or> c = 0xFEFF"

definition trim :: "jsstring \<Rightarrow> jsstring" where
  "trim s = rev (dropWhile isWhiteSpace (rev (dropWhile isWhiteSpace s)))"

text \<open>\<open>Array.prototype.join\<close> on an array of strings.\<close>

fun join :: "jsstring \<Rightarrow> jsstring list \<Rightarrow> jsstring" where
  "join sep [] = []"
| "join sep [x] = x"
| "join sep (x # y # ys) = x @ sep @ join sep (y # ys)"

section \<open>The regular expressions of formatMessage\<close>

text \<open>
  \<open>content.replace(/re/g, template)\<close> scans the string from the left. At each position
  not inside an earlier match the expression is tried; where it matches, the match is
  replaced by the template with \<open>$1\<close>, \<open>$2\<close> filled in and the scan goes on behind
  the match; where it does not, the code unit is kept. None of the five expressions
  looks behind the current position, so a matcher sees the text from the current position
  on, and returns the replacement text and the length of the match.
\<close>

type_synonym matcher = "jsstring \<Rightarrow> (jsstring \<times> nat) option"

fun replaceAll :: "matcher \<Rightarrow> jsstring \<Rightarrow> jsstring" where
  "replaceAll m [] = (case m [] of None \<Rightarrow> [] | Some (rep, n) \<Rightarrow> rep)"
| "replaceAll m (c # cs) =
     (case m (c # cs) of
        None \<Rightarrow> c # replaceAll m cs
      | Some (rep, n) \<Rightarrow>
          if n = 0 then rep @ c # replaceAll m cs
          else rep @ replaceAll m (drop (n - 1) cs))"

fun startsWith :: "jsstring \<Rightarrow> jsstring \<Rightarrow> bool" where
  "startsWith [] s = True"
| "startsWith (d # ds) [] = False"
| "startsWith (d # ds) (c # cs) = (d = c \<and> startsWith ds cs)"

text \<open>\<open>.\<close> matches every code unit but the line terminators.\<close>

definition isLineTerminator :: "jschar \<Rightarrow> bool" where
  "isLineTerminator c \<longleftrightarrow> c = 0x0A \<or> c = 0x0D \<or> c = 0x2028 \<or> c = 0x2029"

definition dot :: "jschar \<Rightarrow> bool" where
  "dot c \<longleftrightarrow> \<not> isLineTerminator c"

text \<open>\<open>[\s\S]\<close> matches every code unit.\<close>

definition anyChar :: "jschar \<Rightarrow> bool" where
  "anyChar c \<longleftrightarrow> True"

text \<open>\<open>\w\<close> is \<open>[A-Za-z0-9_]\<close>.\<close>

definition isWord :: "jschar \<Rightarrow> bool" where
  "isWord c \<longleftrightarrow>
     (0x30 \<le> c \<and> c \<le> 0x39) \<or> (0x41 \<le> c \<and> c \<le> 0x5A) \<or> c = 0x5F
     \<or> (0x61 \<le> c \<and> c \<le> 0x7A)"

text \<open>
  A lazy group \<open>(X*?)\<close> followed by a literal \<open>d\<close> that ends the expression: at each
  position the literal is tried first; if it is not there, one more \<open>X\<close> is consumed;
  a code unit that is not an \<open>X\<close>, or the end of the text, fails the match. The result
  is the text captured by the group.
\<close>

fun lazyUntil :: "(jschar \<Rightarrow> bool) \<Rightarrow> jsstring \<Rightarrow> jsstring \<Rightarrow> jsstring option" where
  "lazyUntil X d [] = (if startsWith d [] then Some [] else None)"
| "lazyUntil X d (c # cs) =
     (if startsWith d (c # cs) then Some []
      else if X c then map_option ((#) c) (lazyUntil X d cs)
      else None)"

text \<open>\<open>/\*\*(.*?)\*\*/g\<close> with template \<open><strong>$1</strong>\<close>.\<close>

definition matchBold :: matcher where
  "matchBold s =
     (if startsWith [chStar, chStar] s then
        (case lazyUntil dot [chStar, chStar] (drop 2 s) of
           None \<Rightarrow> None
         | Some g \<Rightarrow> Some (js ''<strong>'' @ g @ js ''</strong>'', 2 + length g + 2))
      else None)"

text \<open>\<open>/\*(.*?)\*/g\<close> with template \<open><em>$1</em>\<close>.\<close>

definition matchItalic :: matcher where
  "matchItalic s =
     (if startsWith [chStar] s then
        (case lazyUntil dot [chStar] (drop 1 s) of
           None \<Rightarrow> None
         | Some g \<Rightarrow> Some (js ''<em>'' @ g @ js ''</em>'', 1 + length g + 1))
      else None)"

text \<open>
  \<open>/`([^`]+)`/g\<close> with template \<open><code>$1</code>\<close>. The greedy group takes the
  longest run of code units other than the backtick (line terminators included); the run
  must not be empty and a backtick must follow it. Giving back part of the run cannot
  help, since a code unit of the run would then have to be a backtick.
\<close>

definition matchCode :: matcher where
  "matchCode s =
     (if startsWith [chBacktick] s then
        (let g = takeWhile (\<lambda>c. c \<noteq> chBacktick) (drop 1 s);
             r = dropWhile (\<lambda>c. c \<noteq> chBacktick) (drop 1 s)
         in if g \<noteq> [] \<and> startsWith [chBacktick] r
            then Some (js ''<code>'' @ g @ js ''</code>'', 1 + length g + 1)
            else None)
      else None)"

text \<open>
  \<open>/```(\w+)?\n([\s\S]*?)```/g\<close> with template
  \<open><pre><code class="language-$1">$2</code></pre>\<close>. The optional greedy group takes
  the longest run of word characters, and a newline must follow (a shorter run, or none,
  would be followed by a word character). A group that took nothing is undefined and
  \<open>$1\<close> is then the empty string.
\<close>

definition matchFence :: matcher where
  "matchFence s =
     (if startsWith [chBacktick, chBacktick, chBacktick] s then
        (let w = takeWhile isWord (drop 3 s);
             r = dropWhile isWord (drop 3 s)
         in if startsWith [chNewline] r then
              (case lazyUntil anyChar [chBacktick, chBacktick, chBacktick] (drop 1 r) of
                 None \<Rightarrow> None
               | Some g \<Rightarrow>
                   Some (js ''<pre><code class=\"language-'' @ w @ js ''\">'' @ g
                           @ js ''</code></pre>'',
                         3 + length w + 1 + length g + 3))
            else None)
      else None)"

text \<open>\<open>/\n/g\<close> with template \<open><br>\<close>.\<close>

definition matchNewline :: matcher where
  "matchNewline s = (if startsWith [chNewline] s then Some (js ''<br>'', 1) else None)"

definition formatMessage :: "jsstring \<Rightarrow> jsstring" where
  "formatMessage content =
     replaceAll matchNewline
       (replaceAll matchFence
         (replaceAll matchCode
           (replaceAll matchItalic
             (replaceAll matchBold content))))"

section \<open>The conversation state\<close>

text \<open>
  The \<open>Message\<close> type is imported from \<open>./ai-chat\<close>; its roles are the three the
  component uses (\<open>'system'\<close>, \<open>'user'\<close>, \<open>'assistant'\<close>).
\<close>

datatype role = System | User | Assistant

record message =
  role :: role
  content :: jsstring

text \<open>
  \<open>settings\<close> is an untyped object loaded from the plugin. A field that is absent is
  \<open>None\<close>. The component only tests fields for truthiness and passes them on: an
  absent field and the empty string are falsy, and so is the number zero.
\<close>

record settings =
  aiProvider :: "jsstring option"
  aiApiKey :: "jsstring option"
  aiModel :: "jsstring option"
  aiSystemPrompt :: "jsstring option"
  aiTemperature :: "rat option"
  aiMaxTokens :: "int option"
  aiCustomApiUrl :: "jsstring option"

definition truthy :: "jsstring option \<Rightarrow> bool" where
  "truthy v = (case v of None \<Rightarrow> False | Some s \<Rightarrow> s \<noteq> [])"

text \<open>\<open>v || d\<close> on an optional number.\<close>

definition orDefault :: "'a::zero option \<Rightarrow> 'a \<Rightarrow> 'a" where
  "orDefault v d = (case v of None \<Rightarrow> d | Some x \<Rightarrow> if x = 0 then d else x)"

text \<open>
  The options object handed to \<open>chat\<close>, without its three callbacks (they are the
  functions \<open>onChunk\<close>, \<open>onComplete\<close> and \<open>onError\<close> below). The field
  \<open>optMessages\<close> is the source's \<open>messages\<close>.
\<close>

record chatOptions =
  apiKey :: "jsstring option"
  model :: "jsstring option"
  optMessages :: "message list"
  temperature :: rat
  maxTokens :: int
  stream :: bool

record chatCall =
  provider :: "jsstring option"
  options :: chatOptions
  customApiUrl :: "jsstring option"

text \<open>
  The variables of the component, and a trace of what it did to its collaborators:
  the calls of \<open>pushErrMsg\<close>, \<open>pushMsg\<close>, \<open>console.error\<close> (label and error),
  \<open>chat\<close> and \<open>navigator.clipboard.writeText\<close>, each in call order. Scrolling and
  the height of the text area touch the DOM only and are left out.
\<close>

record state =
  messages :: "message list"
  currentInput :: jsstring
  isLoading :: bool
  streamingMessage :: jsstring
  settings :: settings
  totalTokens :: nat
  inputTokens :: nat
  errMsgs :: "jsstring list"
  infoMsgs :: "jsstring list"
  consoleErrors :: "(jsstring \<times> jsstring) list"
  chatCalls :: "chatCall list"
  clipboardWrites :: "jsstring list"

text \<open>
  \<open>calculateTotalTokens\<close> and \<open>estimateTokens\<close> are imported from \<open>./ai-chat\<close>
  and are parameters here.
\<close>

record tokenizer =
  calculateTotalTokens :: "message list \<Rightarrow> nat"
  estimateTokens :: "jsstring \<Rightarrow> nat"

definition updateTokenCount :: "tokenizer \<Rightarrow> state \<Rightarrow> state" where
  "updateTokenCount tk st =
     st\<lparr>totalTokens := calculateTotalTokens tk (messages st),
        inputTokens := estimateTokens tk (currentInput st)\<rparr>"

definition pushErrMsg :: "jsstring \<Rightarrow> state \<Rightarrow> state" where
  "pushErrMsg text st = st\<lparr>errMsgs := errMsgs st @ [text]\<rparr>"

definition pushMsg :: "jsstring \<Rightarrow> state \<Rightarrow> state" where
  "pushMsg text st = st\<lparr>infoMsgs := infoMsgs st @ [text]\<rparr>"

definition consoleError :: "jsstring \<Rightarrow> jsstring \<Rightarrow> state \<Rightarrow> state" where
  "consoleError label err st = st\<lparr>consoleErrors := consoleErrors st @ [(label, err)]\<rparr>"

subsection \<open>The literals of the source\<close>

definition msgNoApiKey :: jsstring where
  "msgNoApiKey =
     [0x8BF7, 0x5148, 0x5728, 0x8BBE, 0x7F6E, 0x4E2D, 0x914D, 0x7F6E] @ js '' API Key''"

definition msgNoModel :: jsstring where
  "msgNoModel =
     [0x8BF7, 0x5148, 0x5728, 0x8BBE, 0x7F6E, 0x4E2D, 0x9009, 0x62E9, 0x6A21, 0x578B]"

definition msgRequestFailed :: jsstring where
  "msgRequestFailed = js ''AI '' @ [0x8BF7, 0x6C42, 0x5931, 0x8D25] @ js '': ''"

definition msgCopied :: jsstring where
  "msgCopied = [0x5BF9, 0x8BDD, 0x5DF2, 0x590D, 0x5236, 0x4E3A] @ js '' Markdown''"

definition msgCopyFailed :: jsstring where
  "msgCopyFailed = [0x590D, 0x5236, 0x5931, 0x8D25]"

definition msgCleared :: jsstring where
  "msgCleared = [0x5BF9, 0x8BDD, 0x5DF2, 0x6E05, 0x7A7A]"

definition userHeader :: jsstring where
  "userHeader = [0xD83D, 0xDC64] @ js '' **User**''"

definition assistantHeader :: jsstring where
  "assistantHeader = [0xD83E, 0xDD16] @ js '' **Assistant**''"

definition separator :: jsstring where
  "separator = [chNewline] @ js ''---'' @ [chNewline, chNewline]"

subsection \<open>The provider adapter\<close>

text \<open>
  \<open>chat\<close> is imported from \<open>./ai-chat\<close>. What the component sees of one call is the
  callbacks the adapter invokes, in order, and then how the awaited promise ends: it
  resolves, it rejects (a throw inside \<open>chat\<close> is the same to \<open>await\<close> in a
  \<open>try\<close> block), or it has not settled yet. The adapter is a parameter: any function
  from the call to such a run.
\<close>

datatype callback = Chunk jsstring | Complete jsstring | Error jsstring

datatype outcome = Resolved | Rejected jsstring | Pending

type_synonym adapter = "chatCall \<Rightarrow> callback list \<times> outcome"

definition onChunk :: "jsstring \<Rightarrow> state \<Rightarrow> state" where
  "onChunk chunk st = st\<lparr>streamingMessage := streamingMessage st @ chunk\<rparr>"

definition onComplete :: "tokenizer \<Rightarrow> jsstring \<Rightarrow> state \<Rightarrow> state" where
  "onComplete tk fullText st =
     (let assistantMessage = \<lparr>role = Assistant, content = fullText\<rparr>
      in updateTokenCount tk
           (st\<lparr>messages := messages st @ [assistantMessage],
               streamingMessage := [],
               isLoading := False\<rparr>))"

definition onError :: "jsstring \<Rightarrow> state \<Rightarrow> state" where
  "onError errorMessage st =
     (pushErrMsg (msgRequestFailed @ errorMessage) st)
       \<lparr>isLoading := False, streamingMessage := []\<rparr>"

fun invoke :: "tokenizer \<Rightarrow> state \<Rightarrow> callback \<Rightarrow> state" where
  "invoke tk st (Chunk chunk) = onChunk chunk st"
| "invoke tk st (Complete fullText) = onComplete tk fullText st"
| "invoke tk st (Error errorMessage) = onError errorMessage st"

subsection \<open>sendMessage\<close>

text \<open>
  \<open>settings.aiSystemPrompt ? [{ role: 'system', content: settings.aiSystemPrompt }] : []\<close>
\<close>

definition systemMessages :: "settings \<Rightarrow> message list" where
  "systemMessages cfg =
     (case aiSystemPrompt cfg of
        None \<Rightarrow> []
      | Some prompt \<Rightarrow> if prompt = [] then [] else [\<lparr>role = System, content = prompt\<rparr>])"

text \<open>
  \<open>messages.filter(msg => msg.role !== 'system')\<close>, with the system prompt put in
  front by \<open>unshift\<close> when there is one.
\<close>

definition messagesToSend :: "state \<Rightarrow> message list" where
  "messagesToSend st =
     systemMessages (settings st) @ filter (\<lambda>msg. role msg \<noteq> System) (messages st)"

definition chatRequest :: "state \<Rightarrow> chatCall" where
  "chatRequest st =
     \<lparr>provider = aiProvider (settings st),
      options = \<lparr>apiKey = aiApiKey (settings st),
                 model = aiModel (settings st),
                 optMessages = messagesToSend st,
                 temperature = orDefault (aiTemperature (settings st)) (7 / 10),
                 maxTokens = orDefault (aiMaxTokens (settings st)) 2000,
                 stream = True\<rparr>,
      customApiUrl = aiCustomApiUrl (settings st)\<rparr>"

text \<open>
  The state when \<open>chat\<close> is called: the user message is appended and the three
  variables are reset. Assigning \<open>currentInput\<close> triggers the reactive block, which
  runs \<open>updateTokenCount\<close> when \<open>await scrollToBottom()\<close> lets the pending update
  run.
\<close>

definition beginTurn :: "tokenizer \<Rightarrow> state \<Rightarrow> state" where
  "beginTurn tk st =
     (let userMessage = \<lparr>role = User, content = trim (currentInput st)\<rparr>
      in updateTokenCount tk
           (st\<lparr>messages := messages st @ [userMessage],
               currentInput := [],
               isLoading := True,
               streamingMessage := []\<rparr>))"

definition sendMessage :: "tokenizer \<Rightarrow> adapter \<Rightarrow> state \<Rightarrow> state" where
  "sendMessage tk chat st =
     (if trim (currentInput st) = [] \<or> isLoading st then st
      else if \<not> truthy (aiApiKey (settings st)) then pushErrMsg msgNoApiKey st
      else if \<not> truthy (aiModel (settings st)) then pushErrMsg msgNoModel st
      else
        (let st1 = beginTurn tk st;
             call = chatRequest st1;
             st2 = st1\<lparr>chatCalls := chatCalls st1 @ [call]\<rparr>;
             st3 = foldl (invoke tk) st2 (fst (chat call))
         in case snd (chat call) of
              Rejected err \<Rightarrow>
                (consoleError (js ''Send message error:'') err st3)
                  \<lparr>isLoading := False, streamingMessage := []\<rparr>
            | _ \<Rightarrow> st3))"

subsection \<open>copyAsMarkdown and clearChat\<close>

definition markdownBlock :: "message \<Rightarrow> jsstring" where
  "markdownBlock msg =
     (let r = (if role msg = User then userHeader else assistantHeader)
      in r @ [chNewline, chNewline] @ content msg @ [chNewline])"

definition markdown :: "message list \<Rightarrow> jsstring" where
  "markdown ms =
     join separator (map markdownBlock (filter (\<lambda>msg. role msg \<noteq> System) ms))"

text \<open>
  \<open>navigator.clipboard\<close> is absent in a page that is not a secure context (the
  host served over plain HTTP); where it is there, \<open>writeText\<close> returns a promise
  that resolves (\<open>None\<close>) or rejects with an error.
\<close>

datatype clipboard = ClipboardAbsent | ClipboardApi "jsstring \<Rightarrow> jsstring option"

datatype exception = TypeError

text \<open>
  The result is the state after the handler and the exception it threw, if any.
  Line 136 reads \<open>navigator.clipboard.writeText\<close> outside any \<open>try\<close>: with the
  clipboard absent this throws a \<open>TypeError\<close> before anything is written or
  reported, and the handlers of \<open>then\<close> and \<open>catch\<close> are never installed.
\<close>

definition copyAsMarkdown :: "clipboard \<Rightarrow> state \<Rightarrow> state \<times> exception option" where
  "copyAsMarkdown navigatorClipboard st =
     (let text = markdown (messages st)
      in case navigatorClipboard of
           ClipboardAbsent \<Rightarrow> (st, Some TypeError)
         | ClipboardApi writeText \<Rightarrow>
             (let st1 = st\<lparr>clipboardWrites := clipboardWrites st @ [text]\<rparr>
              in case writeText text of
                   None \<Rightarrow> (pushMsg msgCopied st1, None)
                 | Some err \<Rightarrow>
                     (consoleError (js ''Copy failed:'') err (pushErrMsg msgCopyFailed st1),
                      None)))"

definition clearChat :: "tokenizer \<Rightarrow> state \<Rightarrow> state" where
  "clearChat tk st =
     pushMsg msgCleared
       (updateTokenCount tk
         (st\<lparr>messages := systemMessages (settings st), streamingMessage := []\<rparr>))"

section \<open>Auxiliary definitions\<close>

text \<open>
  What the last substitution of \<open>formatMessage\<close> does on its own: every newline
  becomes \<open><br>\<close> and every other code unit stays.
\<close>

primrec newlinesToBreaks :: "jsstring \<Rightarrow> jsstring" where
  "newlinesToBreaks [] = []"
| "newlinesToBreaks (c # cs) =
     (if c = chNewline then js ''<br>'' @ newlinesToBreaks cs else c # newlinesToBreaks cs)"

text \<open>
  A text in which every backtick is followed by a backtick, by \<open><\<close>, by a rest
  without backticks, or by nothing.
\<close>

fun fenceless :: "jsstring \<Rightarrow> bool" where
  "fenceless [] = True"
| "fenceless [x] = True"
| "fenceless (x # c # r) =
     ((x = chBacktick \<longrightarrow> c = chBacktick \<or> c = chLt \<or> chBacktick \<notin> set r)
      \<and> fenceless (c # r))"

subsection \<open>Example values\<close>

definition demoTokenizer :: tokenizer where
  "demoTokenizer =
     \<lparr>calculateTotalTokens = (\<lambda>ms. sum_list (map (\<lambda>m. length (content m)) ms)),
      estimateTokens = length\<rparr>"

definition demoSettings :: settings where
  "demoSettings =
     \<lparr>aiProvider = Some (js ''openai''), aiApiKey = Some (js ''sk-1''),
      aiModel = Some (js ''gpt-x''), aiSystemPrompt = Some (js ''Be brief.''),
      aiTemperature = None, aiMaxTokens = None, aiCustomApiUrl = None\<rparr>"

definition demoState :: state where
  "demoState =
     \<lparr>messages = [\<lparr>role = System, content = js ''Be brief.''\<rparr>],
      currentInput = js '' 2+2? '', isLoading = False, streamingMessage = [],
      settings = demoSettings, totalTokens = 9, inputTokens = 6,
      errMsgs = [], infoMsgs = [], consoleErrors = [], chatCalls = [],
      clipboardWrites = []\<rparr>"

definition demoHistory :: "message list" where
  "demoHistory =
     [\<lparr>role = System, content = js ''Be brief.''\<rparr>,
      \<lparr>role = User, content = js ''hi''\<rparr>,
      \<lparr>role = Assistant, content = js ''yo''\<rparr>]"

definition fencedExample :: jsstring where
  "fencedExample = js ''```js'' @ [chNewline] @ js ''**x**'' @ [chNewline] @ js ''```''"

section \<open>Properties of the regular expressions\<close>

lemmas char_defs = js_def chNewline_def chStar_def chBacktick_def chLt_def

lemmas matcher_defs = matchBold_def matchItalic_def matchCode_def matchFence_def
  matchNewline_def dot_def anyChar_def isLineTerminator_def isWord_def

lemma matchBold_head:
  "matchBold [] = None" "x \<noteq> chStar \<Longrightarrow> matchBold (x # xs) = None"
  by (auto simp: matchBold_def)

lemma matchItalic_head:
  "matchItalic [] = None" "x \<noteq> chStar \<Longrightarrow> matchItalic (x # xs) = None"
  by (auto simp: matchItalic_def)

lemma matchCode_head:
  "matchCode [] = None" "x \<noteq> chBacktick \<Longrightarrow> matchCode (x # xs) = None"
  by (auto simp: matchCode_def)

lemma matchFence_head:
  "matchFence [] = None" "x \<noteq> chBacktick \<Longrightarrow> matchFence (x # xs) = None"
  by (auto simp: matchFence_def)

lemma replaceAll_matchBold_absent: "chStar \<notin> set s \<Longrightarrow> replaceAll matchBold s = s"
  by (induction s) (auto simp: matchBold_head)

lemma replaceAll_matchItalic_absent: "chStar \<notin> set s \<Longrightarrow> replaceAll matchItalic s = s"
  by (induction s) (auto simp: matchItalic_head)

lemma replaceAll_matchCode_absent: "chBacktick \<notin> set s \<Longrightarrow> replaceAll matchCode s = s"
  by (induction s) (auto simp: matchCode_head)

lemma replaceAll_matchFence_absent: "chBacktick \<notin> set s \<Longrightarrow> replaceAll matchFence s = s"
  by (induction s) (auto simp: matchFence_head)

lemma replaceAll_matchNewline: "replaceAll matchNewline s = newlinesToBreaks s"
  by (induction s) (auto simp: matchNewline_def)

lemma br_chars: "set (js ''<br>'') = {0x3C, 0x62, 0x72, 0x3E}"
  by (auto simp: js_def)

lemma set_newlinesToBreaks:
  "set (newlinesToBreaks s) \<subseteq> (set s - {chNewline}) \<union> set (js ''<br>'')"
  by (induction s) auto

lemma newlinesToBreaks_absent: "chNewline \<notin> set s \<Longrightarrow> newlinesToBreaks s = s"
  by (induction s) auto

lemma formatMessage_plain:
  assumes "chStar \<notin> set s" and "chBacktick \<notin> set s"
  shows "formatMessage s = newlinesToBreaks s"
  using assms
  by (simp add: formatMessage_def replaceAll_matchNewline replaceAll_matchBold_absent
      replaceAll_matchItalic_absent replaceAll_matchCode_absent replaceAll_matchFence_absent)

text \<open>
  C8: on a text with no asterisk and no backtick (so with none of the bold, italic,
  inline-code or fenced-code markers) \<open>formatMessage\<close> only replaces each newline by
  \<open><br>\<close>, and formatting the result again changes nothing.
\<close>

theorem formatMessage_plain_text:
  assumes "chStar \<notin> set s" and "chBacktick \<notin> set s"
  shows "formatMessage s = newlinesToBreaks s
       \<and> formatMessage (formatMessage s) = formatMessage s"
proof -
  let ?t = "newlinesToBreaks s"
  have fs: "formatMessage s = ?t" using assms by (rule formatMessage_plain)
  have sub: "set ?t \<subseteq> (set s - {chNewline}) \<union> {0x3C, 0x62, 0x72, 0x3E}"
    using set_newlinesToBreaks[of s] by (simp only: br_chars)
  have a: "chStar \<notin> set ?t" using sub assms by (auto simp: chStar_def)
  have b: "chBacktick \<notin> set ?t" using sub assms by (auto simp: chBacktick_def)
  have c: "chNewline \<notin> set ?t" using sub by (auto simp: chNewline_def)
  have "formatMessage ?t = newlinesToBreaks ?t" using a b by (rule formatMessage_plain)
  also have "\<dots> = ?t" using c by (rule newlinesToBreaks_absent)
  finally show ?thesis using fs by simp
qed

theorem formatMessage_plain_text_witness:
  "chStar \<notin> set (js ''a'' @ [chNewline] @ js ''b'')
   \<and> chBacktick \<notin> set (js ''a'' @ [chNewline] @ js ''b'')
   \<and> formatMessage (js ''a'' @ [chNewline] @ js ''b'') = js ''a<br>b''
   \<and> formatMessage (formatMessage (js ''a'' @ [chNewline] @ js ''b'')) =
       formatMessage (js ''a'' @ [chNewline] @ js ''b'')"
proof -
  have a: "chStar \<notin> set (js ''a'' @ [chNewline] @ js ''b'')"
    by (simp add: char_defs)
  have b: "chBacktick \<notin> set (js ''a'' @ [chNewline] @ js ''b'')"
    by (simp add: char_defs)
  have c: "newlinesToBreaks (js ''a'' @ [chNewline] @ js ''b'') = js ''a<br>b''"
    by (simp add: char_defs)
  show ?thesis using formatMessage_plain_text[OF a b] a b unfolding c by blast
qed

section \<open>The fenced-code substitution after the inline-code substitution\<close>

lemma fenceless_absent: "chBacktick \<notin> set s \<Longrightarrow> fenceless s"
  by (induction s rule: fenceless.induct) auto

lemma fenceless_Cons: "x \<noteq> chBacktick \<Longrightarrow> fenceless s \<Longrightarrow> fenceless (x # s)"
  by (cases s) auto

lemma fenceless_append: "chBacktick \<notin> set a \<Longrightarrow> fenceless b \<Longrightarrow> fenceless (a @ b)"
  by (induction a) (auto simp: fenceless_Cons)

lemma fenceless_backtick_Cons:
  "fenceless t \<Longrightarrow> t = [] \<or> hd t = chBacktick \<or> hd t = chLt \<or> chBacktick \<notin> set (tl t)
     \<Longrightarrow> fenceless (chBacktick # t)"
  by (cases t) auto

lemma lazyUntil_needs: "lazyUntil X (d # ds) s = Some g \<Longrightarrow> d \<in> set s"
  by (induction s arbitrary: g) (auto split: if_splits)

lemma set_drop1_dropWhile: "set (drop 1 (dropWhile P (c # r))) \<subseteq> set r"
proof (cases "P c")
  case True
  have "set (drop 1 (dropWhile P r)) \<subseteq> set (dropWhile P r)" by (rule set_drop_subset)
  also have "\<dots> \<subseteq> set r" by (auto dest: set_dropWhileD)
  finally show ?thesis using True by simp
next
  case False
  then show ?thesis by simp
qed

lemma special_chars:
  "\<not> isWord chBacktick" "\<not> isWord chLt" "chBacktick \<noteq> chNewline" "chLt \<noteq> chNewline"
  "chLt \<noteq> chBacktick"
  by (simp_all add: isWord_def chBacktick_def chLt_def chNewline_def)

text \<open>
  Three backticks open a fence only if a language tag and a newline follow and three
  backticks close it. None of that is left where the third backtick is followed by a
  backtick, by \<open><\<close> or by a rest without backticks.
\<close>

lemma matchFence_after_backticks:
  assumes "r = [] \<or> hd r = chBacktick \<or> hd r = chLt \<or> chBacktick \<notin> set (tl r)"
  shows "matchFence (chBacktick # chBacktick # chBacktick # r) = None"
proof (cases r)
  case Nil
  then show ?thesis by (simp add: matchFence_def)
next
  case (Cons c r')
  show ?thesis
  proof (cases "c = chBacktick \<or> c = chLt")
    case True
    then show ?thesis using Cons special_chars by (auto simp: matchFence_def)
  next
    case False
    then have no: "chBacktick \<notin> set r'" using assms Cons by auto
    have "chBacktick \<notin> set (drop 1 (dropWhile isWord (c # r')))"
      using no set_drop1_dropWhile[of isWord c r'] by blast
    then have "lazyUntil anyChar [chBacktick, chBacktick, chBacktick]
                 (drop 1 (dropWhile isWord (c # r'))) = None"
      using lazyUntil_needs[of anyChar chBacktick "[chBacktick, chBacktick]"]
      by (cases "lazyUntil anyChar [chBacktick, chBacktick, chBacktick]
                 (drop 1 (dropWhile isWord (c # r')))") auto
    then show ?thesis using Cons by (simp add: matchFence_def Let_def)
  qed
qed

lemma matchFence_fenceless: "fenceless s \<Longrightarrow> matchFence s = None"
proof (cases "startsWith [chBacktick, chBacktick, chBacktick] s")
  case False
  then show ?thesis by (simp add: matchFence_def)
next
  case True
  assume f: "fenceless s"
  from True obtain r where s: "s = chBacktick # chBacktick # chBacktick # r"
    by (cases s; cases "tl s"; cases "tl (tl s)") auto
  have "r = [] \<or> hd r = chBacktick \<or> hd r = chLt \<or> chBacktick \<notin> set (tl r)"
    using f unfolding s by (cases r) auto
  then show ?thesis unfolding s by (rule matchFence_after_backticks)
qed

lemma replaceAll_fenceless: "fenceless s \<Longrightarrow> replaceAll matchFence s = s"
proof (induction s rule: fenceless.induct)
  case 1
  then show ?case by (simp add: matchFence_def)
next
  case (2 x)
  then show ?case by (simp add: matchFence_fenceless)
next
  case (3 x c r)
  have "matchFence (x # c # r) = None" using "3.prems" by (rule matchFence_fenceless)
  moreover have "replaceAll matchFence (c # r) = c # r" using 3 by simp
  ultimately show ?case by simp
qed

lemma matchCode_Some:
  "matchCode s = Some (rep, n) \<Longrightarrow>
     \<exists>g. rep = js ''<code>'' @ g @ js ''</code>'' \<and> chBacktick \<notin> set g \<and> 0 < n"
  by (auto simp: matchCode_def Let_def split: if_splits dest: set_takeWhileD)

lemma code_tag_chars:
  "chBacktick \<notin> set (js ''<code>'')" "chBacktick \<notin> set (js ''</code>'')"
  "hd (js ''<code>'' @ t) = chLt"
  by (simp_all add: js_def chBacktick_def chLt_def)

lemma replaceAll_matchCode_head:
  "replaceAll matchCode (chBacktick # s) \<noteq> [] \<and>
   (hd (replaceAll matchCode (chBacktick # s)) = chBacktick
    \<or> hd (replaceAll matchCode (chBacktick # s)) = chLt)"
proof (cases "matchCode (chBacktick # s)")
  case None
  then show ?thesis by simp
next
  case (Some a)
  obtain rep n where a: "a = (rep, n)" by (cases a)
  from matchCode_Some[OF Some[unfolded a]] obtain g where
    "rep = js ''<code>'' @ g @ js ''</code>''" "0 < n" by blast
  then show ?thesis using Some a by (simp add: code_tag_chars) (simp add: js_def)
qed

lemma matchCode_None_backtick:
  assumes "matchCode (chBacktick # cs) = None"
  shows "cs = [] \<or> hd cs = chBacktick \<or> chBacktick \<notin> set cs"
proof (cases cs)
  case Nil
  then show ?thesis by simp
next
  case (Cons c r)
  show ?thesis
  proof (cases "c = chBacktick")
    case True
    then show ?thesis using Cons by simp
  next
    case False
    have "dropWhile (\<lambda>c. c \<noteq> chBacktick) cs = []"
    proof (rule ccontr)
      assume ne: "dropWhile (\<lambda>c. c \<noteq> chBacktick) cs \<noteq> []"
      then have "hd (dropWhile (\<lambda>c. c \<noteq> chBacktick) cs) = chBacktick"
        using hd_dropWhile[of "\<lambda>c. c \<noteq> chBacktick" cs] by simp
      then have "startsWith [chBacktick] (dropWhile (\<lambda>c. c \<noteq> chBacktick) cs)"
        using ne by (cases "dropWhile (\<lambda>c. c \<noteq> chBacktick) cs") auto
      then show False using assms Cons False by (simp add: matchCode_def Let_def)
    qed
    then show ?thesis by auto
  qed
qed

lemma fenceless_replaceAll_matchCode: "fenceless (replaceAll matchCode s)"
proof (induction "length s" arbitrary: s rule: less_induct)
  case less
  show ?case
  proof (cases s)
    case Nil
    then show ?thesis by (simp add: matchCode_head)
  next
    case (Cons c cs)
    have ih: "fenceless (replaceAll matchCode t)" if "length t \<le> length cs" for t
      using less[of t] that Cons by simp
    show ?thesis
    proof (cases "matchCode (c # cs)")
      case None
      show ?thesis
      proof (cases "c = chBacktick")
        case False
        then show ?thesis using Cons None ih[of cs] by (simp add: fenceless_Cons)
      next
        case True
        let ?t = "replaceAll matchCode cs"
        from matchCode_None_backtick[OF None[unfolded True]]
        have "?t = [] \<or> hd ?t = chBacktick \<or> hd ?t = chLt \<or> chBacktick \<notin> set (tl ?t)"
        proof (elim disjE)
          assume "cs = []"
          then show ?thesis by (simp add: matchCode_head)
        next
          assume h: "hd cs = chBacktick"
          show ?thesis
          proof (cases cs)
            case Nil
            then show ?thesis by (simp add: matchCode_head)
          next
            case (Cons a list)
            then show ?thesis using h replaceAll_matchCode_head[of list] by auto
          qed
        next
          assume no: "chBacktick \<notin> set cs"
          then have "?t = cs" by (rule replaceAll_matchCode_absent)
          then show ?thesis using no by (cases cs) auto
        qed
        then have "fenceless (chBacktick # ?t)"
          using ih[of cs] by (simp add: fenceless_backtick_Cons)
        then show ?thesis using Cons None True by simp
      qed
    next
      case (Some a)
      obtain rep n where a: "a = (rep, n)" by (cases a)
      from matchCode_Some[OF Some[unfolded a]] obtain g where
        rep: "rep = js ''<code>'' @ g @ js ''</code>''" and g: "chBacktick \<notin> set g"
        and n: "0 < n"
        by blast
      have "chBacktick \<notin> set rep" using rep g code_tag_chars by simp
      moreover have "fenceless (replaceAll matchCode (drop (n - 1) cs))"
        by (rule ih) simp
      ultimately have "fenceless (rep @ replaceAll matchCode (drop (n - 1) cs))"
        by (rule fenceless_append)
      then show ?thesis using Cons Some a n by simp
    qed
  qed
qed

text \<open>
  Whatever the text, the fenced-code substitution finds nothing to replace in the
  result of the inline-code substitution: the inline-code expression has already taken
  the last backtick of every opening fence.
\<close>

lemma fence_never_matches:
  "replaceAll matchFence (replaceAll matchCode s) = replaceAll matchCode s"
  by (simp add: replaceAll_fenceless fenceless_replaceAll_matchCode)

text \<open>
  C10: bold, italic and inline code are substituted before fenced code, so a fenced
  block with body \<open>**x**\<close> should come out as a \<open>pre\<close>/\<open>code\<close> element
  whose body holds \<open><strong>x</strong>\<close>. On the fenced block \<open>```js\<close>,
  \<open>**x**\<close>, \<open>```\<close> (three lines) the body is indeed made bold, but the
  result is an inline \<open>code\<close> element between two pairs of backticks, and no
  \<open>pre\<close> element: \<open>formatMessage\<close> returns
  \<open>``<code>js<br><strong>x</strong><br></code>``\<close>.
\<close>

theorem formatMessage_fenced_block:
  "formatMessage fencedExample = js ''``<code>js<br><strong>x</strong><br></code>``''"
  by (simp add: fencedExample_def formatMessage_def char_defs matcher_defs)

section \<open>Properties of a turn\<close>

lemmas callback_defs = onChunk_def onComplete_def onError_def updateTokenCount_def
  pushErrMsg_def pushMsg_def consoleError_def

lemmas demo_defs = demoState_def demoSettings_def demoTokenizer_def truthy_def trim_def
  js_def isWhiteSpace_def

lemma foldl_Chunk:
  "foldl (invoke tk) s (map Chunk chunks) =
     s\<lparr>streamingMessage := streamingMessage s @ concat chunks\<rparr>"
  by (induction chunks arbitrary: s) (simp_all add: onChunk_def)

lemma beginTurn_fields:
  "messages (beginTurn tk st) =
     messages st @ [\<lparr>role = User, content = trim (currentInput st)\<rparr>]"
  "currentInput (beginTurn tk st) = []"
  "isLoading (beginTurn tk st)"
  "streamingMessage (beginTurn tk st) = []"
  "settings (beginTurn tk st) = settings st"
  "errMsgs (beginTurn tk st) = errMsgs st"
  "consoleErrors (beginTurn tk st) = consoleErrors st"
  "chatCalls (beginTurn tk st) = chatCalls st"
  by (simp_all add: beginTurn_def updateTokenCount_def Let_def)

text \<open>What \<open>sendMessage\<close> does once its three checks have passed.\<close>

lemma sendMessage_valid:
  assumes "trim (currentInput st) \<noteq> []" "\<not> isLoading st"
    "truthy (aiApiKey (settings st))" "truthy (aiModel (settings st))"
  shows "sendMessage tk chat st =
     (let st2 = (beginTurn tk st)
                  \<lparr>chatCalls := chatCalls st @ [chatRequest (beginTurn tk st)]\<rparr>;
          st3 = foldl (invoke tk) st2 (fst (chat (chatRequest (beginTurn tk st))))
      in case snd (chat (chatRequest (beginTurn tk st))) of
           Rejected err \<Rightarrow> (consoleError (js ''Send message error:'') err st3)
                  \<lparr>isLoading := False, streamingMessage := []\<rparr>
         | _ \<Rightarrow> st3)"
  using assms
  by (simp add: sendMessage_def Let_def beginTurn_fields split: outcome.split)

lemma invoke_keeps:
  "consoleErrors (invoke tk s cb) = consoleErrors s"
  "chatCalls (invoke tk s cb) = chatCalls s"
  "currentInput (invoke tk s cb) = currentInput s"
  by (cases cb; simp add: callback_defs Let_def)+

lemma foldl_invoke_keeps:
  "consoleErrors (foldl (invoke tk) s cbs) = consoleErrors s"
  "chatCalls (foldl (invoke tk) s cbs) = chatCalls s"
  "currentInput (foldl (invoke tk) s cbs) = currentInput s"
  by (induction cbs arbitrary: s; simp add: invoke_keeps)+

text \<open>
  Once \<open>onError\<close> has been invoked, no later callback sets \<open>isLoading\<close> again.
\<close>

lemma error_invoked_not_loading:
  "Error e \<in> set cbs \<Longrightarrow> \<not> isLoading (foldl (invoke tk) s cbs)"
proof (induction cbs rule: rev_induct)
  case Nil
  then show ?case by simp
next
  case (snoc cb cbs)
  then show ?case by (cases cb) (auto simp: callback_defs Let_def)
qed

lemma demo_valid:
  "trim (currentInput demoState) \<noteq> []" "\<not> isLoading demoState"
  "truthy (aiApiKey (settings demoState))" "truthy (aiModel (settings demoState))"
  by (simp_all add: demo_defs)

text \<open>
  C1: when the adapter of a turn invokes \<open>onChunk\<close> any number of times and then
  \<open>onComplete(full)\<close>, the history is the one before the turn, the user message and
  a new assistant message with content \<open>full\<close>; the streaming buffer is empty and
  \<open>isLoading\<close> is false, however the awaited call ends.
\<close>

theorem sendMessage_complete:
  assumes "trim (currentInput st) \<noteq> []" and "\<not> isLoading st"
    and "truthy (aiApiKey (settings st))" and "truthy (aiModel (settings st))"
    and "fst (chat (chatRequest (beginTurn tk st))) = map Chunk chunks @ [Complete full]"
  shows "messages (sendMessage tk chat st) =
           messages st @ [\<lparr>role = User, content = trim (currentInput st)\<rparr>,
                          \<lparr>role = Assistant, content = full\<rparr>]
       \<and> streamingMessage (sendMessage tk chat st) = []
       \<and> \<not> isLoading (sendMessage tk chat st)"
  using assms(5)
  by (cases "snd (chat (chatRequest (beginTurn tk st)))")
     (simp_all add: sendMessage_valid[OF assms(1-4)] Let_def foldl_Chunk beginTurn_fields
        callback_defs)

theorem sendMessage_complete_witness:
  "messages (sendMessage demoTokenizer
       (\<lambda>call. ([Chunk (js ''4''), Complete (js ''4'')], Resolved)) demoState) =
     [\<lparr>role = System, content = js ''Be brief.''\<rparr>,
      \<lparr>role = User, content = js ''2+2?''\<rparr>,
      \<lparr>role = Assistant, content = js ''4''\<rparr>]
   \<and> streamingMessage (sendMessage demoTokenizer
       (\<lambda>call. ([Chunk (js ''4''), Complete (js ''4'')], Resolved)) demoState) = []
   \<and> \<not> isLoading (sendMessage demoTokenizer
       (\<lambda>call. ([Chunk (js ''4''), Complete (js ''4'')], Resolved)) demoState)"
proof -
  let ?chat = "\<lambda>call::chatCall. ([Chunk (js ''4''), Complete (js ''4'')], Resolved)"
  have run: "fst (?chat (chatRequest (beginTurn demoTokenizer demoState))) =
      map Chunk [js ''4''] @ [Complete (js ''4'')]"
    by simp
  have "messages demoState @ [\<lparr>role = User, content = trim (currentInput demoState)\<rparr>,
                          \<lparr>role = Assistant, content = js ''4''\<rparr>] =
     [\<lparr>role = System, content = js ''Be brief.''\<rparr>,
      \<lparr>role = User, content = js ''2+2?''\<rparr>,
      \<lparr>role = Assistant, content = js ''4''\<rparr>]"
    by (simp add: demo_defs)
  then show ?thesis
    using sendMessage_complete[OF demo_valid run, where tk = demoTokenizer] by simp
qed

text \<open>
  C2: while \<open>isLoading\<close> is true, and also when the draft is empty after trimming,
  \<open>sendMessage\<close> returns the state as it is: history, draft, streaming buffer,
  \<open>isLoading\<close> and the list of adapter calls are the same.
\<close>

theorem sendMessage_noop:
  assumes "isLoading st \<or> trim (currentInput st) = []"
  shows "sendMessage tk chat st = st"
  using assms by (auto simp: sendMessage_def)

theorem sendMessage_noop_witness:
  "isLoading (demoState\<lparr>isLoading := True\<rparr>)
   \<and> sendMessage demoTokenizer (\<lambda>call. ([Complete (js ''4'')], Resolved))
       (demoState\<lparr>isLoading := True\<rparr>) = demoState\<lparr>isLoading := True\<rparr>
   \<and> trim (currentInput (demoState\<lparr>currentInput := js ''  ''\<rparr>)) = []
   \<and> sendMessage demoTokenizer (\<lambda>call. ([Complete (js ''4'')], Resolved))
       (demoState\<lparr>currentInput := js ''  ''\<rparr>) = demoState\<lparr>currentInput := js ''  ''\<rparr>"
proof -
  have a: "isLoading (demoState\<lparr>isLoading := True\<rparr>)" by simp
  have b: "trim (currentInput (demoState\<lparr>currentInput := js ''  ''\<rparr>)) = []"
    by (simp add: trim_def js_def isWhiteSpace_def)
  show ?thesis
    using a b
      sendMessage_noop[of "demoState\<lparr>isLoading := True\<rparr>" demoTokenizer
        "\<lambda>call. ([Complete (js ''4'')], Resolved)"]
      sendMessage_noop[of "demoState\<lparr>currentInput := js ''  ''\<rparr>" demoTokenizer
        "\<lambda>call. ([Complete (js ''4'')], Resolved)"]
    by blast
qed

text \<open>
  C3: with a draft that is not blank and no turn in flight, a missing API key or a
  missing model makes \<open>sendMessage\<close> report one error through \<open>pushErrMsg\<close> (the
  API key is checked first) and change nothing else: no adapter call, and history,
  draft, streaming buffer and \<open>isLoading\<close> as before.
\<close>

theorem sendMessage_missing_config:
  assumes "trim (currentInput st) \<noteq> []" and "\<not> isLoading st"
    and "\<not> truthy (aiApiKey (settings st)) \<or> \<not> truthy (aiModel (settings st))"
  shows "sendMessage tk chat st =
           st\<lparr>errMsgs := errMsgs st @
                 [if truthy (aiApiKey (settings st)) then msgNoModel else msgNoApiKey]\<rparr>"
  using assms by (auto simp: sendMessage_def pushErrMsg_def)

theorem sendMessage_missing_config_witness:
  "sendMessage demoTokenizer (\<lambda>call. ([Complete (js ''4'')], Resolved))
     (demoState\<lparr>currentInput := js ''hello'',
                settings := demoSettings\<lparr>aiApiKey := Some []\<rparr>\<rparr>) =
   demoState\<lparr>currentInput := js ''hello'',
             settings := demoSettings\<lparr>aiApiKey := Some []\<rparr>,
             errMsgs := [msgNoApiKey]\<rparr>"
proof -
  let ?st = "demoState\<lparr>currentInput := js ''hello'',
                settings := demoSettings\<lparr>aiApiKey := Some []\<rparr>\<rparr>"
  have a: "trim (currentInput ?st) \<noteq> []" by (simp add: trim_def js_def isWhiteSpace_def)
  have b: "\<not> isLoading ?st" by (simp add: demoState_def)
  have c: "\<not> truthy (aiApiKey (settings ?st)) \<or> \<not> truthy (aiModel (settings ?st))"
    by (simp add: truthy_def)
  have d: "errMsgs ?st = []" "\<not> truthy (aiApiKey (settings ?st))"
    by (simp_all add: demoState_def truthy_def)
  show ?thesis
    using sendMessage_missing_config[OF a b c, of demoTokenizer
        "\<lambda>call. ([Complete (js ''4'')], Resolved)"] d
    by simp
qed

text \<open>
  C4: with a draft that is not blank, no turn in flight and key and model configured,
  \<open>sendMessage\<close> appends one user message (the trimmed draft), clears the draft, sets
  \<open>isLoading\<close> and clears the streaming buffer: this is the state while the adapter
  has invoked no callback yet. Whatever the adapter does, it is called once, with the system
  prompt (when there is one) as first message and then the history, the new user
  message included, without its system entries.
\<close>

theorem sendMessage_begins_turn:
  assumes "trim (currentInput st) \<noteq> []" and "\<not> isLoading st"
    and "truthy (aiApiKey (settings st))" and "truthy (aiModel (settings st))"
  shows "messages (sendMessage tk (\<lambda>call. ([], Pending)) st) =
           messages st @ [\<lparr>role = User, content = trim (currentInput st)\<rparr>]
       \<and> currentInput (sendMessage tk (\<lambda>call. ([], Pending)) st) = []
       \<and> isLoading (sendMessage tk (\<lambda>call. ([], Pending)) st)
       \<and> streamingMessage (sendMessage tk (\<lambda>call. ([], Pending)) st) = []
       \<and> map (\<lambda>call. optMessages (options call)) (chatCalls (sendMessage tk chat st)) =
           map (\<lambda>call. optMessages (options call)) (chatCalls st) @
           [(case aiSystemPrompt (settings st) of
               None \<Rightarrow> []
             | Some prompt \<Rightarrow>
                 if prompt = [] then [] else [\<lparr>role = System, content = prompt\<rparr>])
            @ filter (\<lambda>msg. role msg \<noteq> System)
                (messages st @ [\<lparr>role = User, content = trim (currentInput st)\<rparr>])]"
proof -
  have "chatCalls (sendMessage tk chat st) = chatCalls st @ [chatRequest (beginTurn tk st)]"
    by (cases "snd (chat (chatRequest (beginTurn tk st)))")
       (simp_all add: sendMessage_valid[OF assms] Let_def foldl_invoke_keeps
          consoleError_def)
  moreover have "optMessages (options (chatRequest (beginTurn tk st))) =
      (case aiSystemPrompt (settings st) of
         None \<Rightarrow> []
       | Some prompt \<Rightarrow> if prompt = [] then [] else [\<lparr>role = System, content = prompt\<rparr>])
      @ filter (\<lambda>msg. role msg \<noteq> System)
          (messages st @ [\<lparr>role = User, content = trim (currentInput st)\<rparr>])"
    by (simp add: chatRequest_def messagesToSend_def systemMessages_def beginTurn_fields)
  ultimately show ?thesis
    by (simp add: sendMessage_valid[OF assms] beginTurn_fields)
qed

theorem sendMessage_begins_turn_witness:
  "messages (sendMessage demoTokenizer (\<lambda>call. ([], Pending)) demoState) =
     [\<lparr>role = System, content = js ''Be brief.''\<rparr>, \<lparr>role = User, content = js ''2+2?''\<rparr>]
   \<and> currentInput (sendMessage demoTokenizer (\<lambda>call. ([], Pending)) demoState) = []
   \<and> isLoading (sendMessage demoTokenizer (\<lambda>call. ([], Pending)) demoState)
   \<and> streamingMessage (sendMessage demoTokenizer (\<lambda>call. ([], Pending)) demoState) = []
   \<and> map (\<lambda>call. optMessages (options call))
       (chatCalls (sendMessage demoTokenizer (\<lambda>call. ([Complete (js ''4'')], Resolved))
          demoState)) =
     [[\<lparr>role = System, content = js ''Be brief.''\<rparr>, \<lparr>role = User, content = js ''2+2?''\<rparr>]]"
proof -
  have "messages demoState @ [\<lparr>role = User, content = trim (currentInput demoState)\<rparr>] =
     [\<lparr>role = System, content = js ''Be brief.''\<rparr>, \<lparr>role = User, content = js ''2+2?''\<rparr>]"
    "aiSystemPrompt (settings demoState) = Some (js ''Be brief.'')"
    "js ''Be brief.'' \<noteq> []"
    "chatCalls demoState = []"
    by (simp_all add: demo_defs)
  then show ?thesis
    using sendMessage_begins_turn[OF demo_valid, of demoTokenizer
        "\<lambda>call. ([Complete (js ''4'')], Resolved)"]
    by simp
qed

text \<open>
  C5: when the adapter of a turn invokes \<open>onChunk\<close> any number of times and then
  \<open>onError(err)\<close>, one error notification with the error's message is pushed,
  \<open>isLoading\<close> is false, the streaming buffer is empty, and the history is the one
  the turn started with: the user message appended on sending is still its last entry.
\<close>

theorem sendMessage_error:
  assumes "trim (currentInput st) \<noteq> []" and "\<not> isLoading st"
    and "truthy (aiApiKey (settings st))" and "truthy (aiModel (settings st))"
    and "fst (chat (chatRequest (beginTurn tk st))) = map Chunk chunks @ [Error err]"
  shows "errMsgs (sendMessage tk chat st) = errMsgs st @ [msgRequestFailed @ err]
       \<and> \<not> isLoading (sendMessage tk chat st)
       \<and> streamingMessage (sendMessage tk chat st) = []
       \<and> messages (sendMessage tk chat st) =
           messages st @ [\<lparr>role = User, content = trim (currentInput st)\<rparr>]"
  using assms(5)
  by (cases "snd (chat (chatRequest (beginTurn tk st)))")
     (simp_all add: sendMessage_valid[OF assms(1-4)] Let_def foldl_Chunk beginTurn_fields
        callback_defs)

theorem sendMessage_error_witness:
  "errMsgs (sendMessage demoTokenizer
       (\<lambda>call. ([Chunk (js ''4''), Error (js ''timeout'')], Resolved)) demoState) =
     [msgRequestFailed @ js ''timeout'']
   \<and> \<not> isLoading (sendMessage demoTokenizer
       (\<lambda>call. ([Chunk (js ''4''), Error (js ''timeout'')], Resolved)) demoState)
   \<and> streamingMessage (sendMessage demoTokenizer
       (\<lambda>call. ([Chunk (js ''4''), Error (js ''timeout'')], Resolved)) demoState) = []
   \<and> messages (sendMessage demoTokenizer
       (\<lambda>call. ([Chunk (js ''4''), Error (js ''timeout'')], Resolved)) demoState) =
     [\<lparr>role = System, content = js ''Be brief.''\<rparr>, \<lparr>role = User, content = js ''2+2?''\<rparr>]"
proof -
  let ?chat = "\<lambda>call::chatCall. ([Chunk (js ''4''), Error (js ''timeout'')], Resolved)"
  have run: "fst (?chat (chatRequest (beginTurn demoTokenizer demoState))) =
      map Chunk [js ''4''] @ [Error (js ''timeout'')]"
    by simp
  have "messages demoState @ [\<lparr>role = User, content = trim (currentInput demoState)\<rparr>] =
     [\<lparr>role = System, content = js ''Be brief.''\<rparr>, \<lparr>role = User, content = js ''2+2?''\<rparr>]"
    "errMsgs demoState = []"
    by (simp_all add: demo_defs)
  then show ?thesis
    using sendMessage_error[OF demo_valid run, where tk = demoTokenizer] by simp
qed

text \<open>
  C6: after \<open>clearChat\<close> the history is empty when no system prompt is configured
  (the setting is absent or the empty string) and is the one system message with the
  prompt otherwise; the streaming buffer is empty.
\<close>

theorem clearChat_history:
  "messages (clearChat tk st) =
     (case aiSystemPrompt (settings st) of
        None \<Rightarrow> []
      | Some prompt \<Rightarrow> if prompt = [] then [] else [\<lparr>role = System, content = prompt\<rparr>])
   \<and> streamingMessage (clearChat tk st) = []"
  by (simp add: clearChat_def pushMsg_def updateTokenCount_def systemMessages_def)

theorem clearChat_history_witness:
  "messages (clearChat demoTokenizer
       (demoState\<lparr>messages := demoHistory, streamingMessage := js ''y''\<rparr>)) =
     [\<lparr>role = System, content = js ''Be brief.''\<rparr>]
   \<and> streamingMessage (clearChat demoTokenizer
       (demoState\<lparr>messages := demoHistory, streamingMessage := js ''y''\<rparr>)) = []
   \<and> messages (clearChat demoTokenizer
       (demoState\<lparr>settings := demoSettings\<lparr>aiSystemPrompt := None\<rparr>\<rparr>)) = []"
  using
    clearChat_history[of demoTokenizer
      "demoState\<lparr>messages := demoHistory, streamingMessage := js ''y''\<rparr>"]
    clearChat_history[of demoTokenizer
      "demoState\<lparr>settings := demoSettings\<lparr>aiSystemPrompt := None\<rparr>\<rparr>"]
  by (simp add: demoState_def demoSettings_def js_def)

text \<open>
  C9: when the awaited adapter call of a turn throws, whatever callbacks it invoked
  before, the error is logged with \<open>console.error\<close>, \<open>isLoading\<close> is false and
  the streaming buffer is empty. So every error path of \<open>sendMessage\<close> ends with
  \<open>isLoading\<close> false: the adapter call that throws, the turn in which the adapter
  invokes \<open>onError\<close> (whatever it invokes before and after, and however the call
  ends), and the send refused for a missing API key or model.
\<close>

theorem sendMessage_adapter_throws:
  "(trim (currentInput st) \<noteq> [] \<and> \<not> isLoading st
      \<and> truthy (aiApiKey (settings st)) \<and> truthy (aiModel (settings st))
      \<and> snd (chat (chatRequest (beginTurn tk st))) = Rejected err
    \<longrightarrow> consoleErrors (sendMessage tk chat st) =
          consoleErrors st @ [(js ''Send message error:'', err)]
        \<and> \<not> isLoading (sendMessage tk chat st)
        \<and> streamingMessage (sendMessage tk chat st) = [])
   \<and> (trim (currentInput st) \<noteq> [] \<and> \<not> isLoading st
      \<and> truthy (aiApiKey (settings st)) \<and> truthy (aiModel (settings st))
      \<and> Error e \<in> set (fst (chat (chatRequest (beginTurn tk st))))
    \<longrightarrow> \<not> isLoading (sendMessage tk chat st))
   \<and> (trim (currentInput st) \<noteq> [] \<and> \<not> isLoading st
      \<and> (\<not> truthy (aiApiKey (settings st)) \<or> \<not> truthy (aiModel (settings st)))
    \<longrightarrow> \<not> isLoading (sendMessage tk chat st))"
proof (intro conjI impI)
  assume a: "trim (currentInput st) \<noteq> [] \<and> \<not> isLoading st
      \<and> truthy (aiApiKey (settings st)) \<and> truthy (aiModel (settings st))
      \<and> snd (chat (chatRequest (beginTurn tk st))) = Rejected err"
  then have v: "trim (currentInput st) \<noteq> []" "\<not> isLoading st"
    "truthy (aiApiKey (settings st))" "truthy (aiModel (settings st))" by simp_all
  from a show "consoleErrors (sendMessage tk chat st) =
          consoleErrors st @ [(js ''Send message error:'', err)]"
    by (simp add: sendMessage_valid[OF v] Let_def consoleError_def foldl_invoke_keeps
        beginTurn_fields)
  from a show "\<not> isLoading (sendMessage tk chat st)"
    by (simp add: sendMessage_valid[OF v] Let_def consoleError_def)
  from a show "streamingMessage (sendMessage tk chat st) = []"
    by (simp add: sendMessage_valid[OF v] Let_def consoleError_def)
next
  assume a: "trim (currentInput st) \<noteq> [] \<and> \<not> isLoading st
      \<and> truthy (aiApiKey (settings st)) \<and> truthy (aiModel (settings st))
      \<and> Error e \<in> set (fst (chat (chatRequest (beginTurn tk st))))"
  then have v: "trim (currentInput st) \<noteq> []" "\<not> isLoading st"
    "truthy (aiApiKey (settings st))" "truthy (aiModel (settings st))" by simp_all
  let ?st2 = "(beginTurn tk st)
                \<lparr>chatCalls := chatCalls st @ [chatRequest (beginTurn tk st)]\<rparr>"
  let ?cbs = "fst (chat (chatRequest (beginTurn tk st)))"
  have after: "\<not> isLoading (foldl (invoke tk) ?st2 ?cbs)"
    using a by (intro error_invoked_not_loading[of e]) simp
  show "\<not> isLoading (sendMessage tk chat st)"
    using after
    by (cases "snd (chat (chatRequest (beginTurn tk st)))")
       (simp_all add: sendMessage_valid[OF v] Let_def consoleError_def)
next
  assume "trim (currentInput st) \<noteq> [] \<and> \<not> isLoading st
      \<and> (\<not> truthy (aiApiKey (settings st)) \<or> \<not> truthy (aiModel (settings st)))"
  then show "\<not> isLoading (sendMessage tk chat st)"
    by (auto simp: sendMessage_def pushErrMsg_def)
qed

theorem sendMessage_adapter_throws_witness:
  "snd ((\<lambda>call::chatCall. ([Chunk (js ''4'')], Rejected (js ''boom'')))
         (chatRequest (beginTurn demoTokenizer demoState))) = Rejected (js ''boom'')
   \<and> consoleErrors (sendMessage demoTokenizer
        (\<lambda>call. ([Chunk (js ''4'')], Rejected (js ''boom''))) demoState) =
       [(js ''Send message error:'', js ''boom'')]
   \<and> \<not> isLoading (sendMessage demoTokenizer
        (\<lambda>call. ([Chunk (js ''4'')], Rejected (js ''boom''))) demoState)
   \<and> streamingMessage (sendMessage demoTokenizer
        (\<lambda>call. ([Chunk (js ''4'')], Rejected (js ''boom''))) demoState) = []
   \<and> Error (js ''timeout'') \<in>
       set (fst ((\<lambda>call::chatCall.
                    ([Chunk (js ''4''), Error (js ''timeout''), Chunk (js ''2'')], Pending))
                 (chatRequest (beginTurn demoTokenizer demoState))))
   \<and> \<not> isLoading (sendMessage demoTokenizer
        (\<lambda>call. ([Chunk (js ''4''), Error (js ''timeout''), Chunk (js ''2'')], Pending))
        demoState)
   \<and> \<not> truthy (aiApiKey (settings
        (demoState\<lparr>settings := demoSettings\<lparr>aiApiKey := None\<rparr>\<rparr>)))
   \<and> \<not> isLoading (sendMessage demoTokenizer (\<lambda>call. ([Complete (js ''4'')], Resolved))
        (demoState\<lparr>settings := demoSettings\<lparr>aiApiKey := None\<rparr>\<rparr>))"
proof -
  let ?throws = "\<lambda>call::chatCall. ([Chunk (js ''4'')], Rejected (js ''boom''))"
  let ?fails = "\<lambda>call::chatCall.
      ([Chunk (js ''4''), Error (js ''timeout''), Chunk (js ''2'')], Pending)"
  let ?chat = "\<lambda>call::chatCall. ([Complete (js ''4'')], Resolved)"
  let ?nokey = "demoState\<lparr>settings := demoSettings\<lparr>aiApiKey := None\<rparr>\<rparr>"
  have run: "snd (?throws (chatRequest (beginTurn demoTokenizer demoState))) =
      Rejected (js ''boom'')"
    by simp
  have err: "Error (js ''timeout'') \<in>
      set (fst (?fails (chatRequest (beginTurn demoTokenizer demoState))))"
    by simp
  have c: "consoleErrors demoState = []" by (simp add: demoState_def)
  have n: "trim (currentInput ?nokey) \<noteq> []" "\<not> isLoading ?nokey"
    "\<not> truthy (aiApiKey (settings ?nokey))"
    by (simp_all add: demo_defs)
  show ?thesis
    using sendMessage_adapter_throws[of demoState ?throws demoTokenizer "js ''boom''"]
      sendMessage_adapter_throws[of demoState ?fails demoTokenizer _ "js ''timeout''"]
      sendMessage_adapter_throws[of ?nokey ?chat demoTokenizer]
      demo_valid run err c n
    by simp
qed

section \<open>Properties of copyAsMarkdown\<close>

lemma join_Cons: "join sep (x # xs) = x @ (if xs = [] then [] else sep @ join sep xs)"
  by (cases xs) simp_all

text \<open>
  The exported text is built from the history front to back. A system message adds
  nothing. Any other message adds its block: the header of its role (\<open>userHeader\<close>
  for a user message, \<open>assistantHeader\<close> otherwise), an empty line, the content as
  it is and a newline; the horizontal-rule separator follows the block exactly when a
  later message that is not a system message does.
\<close>

lemma markdown_export:
  "markdown [] = []"
  "markdown (m # ms) =
     (if role m = System then markdown ms
      else (if role m = User then userHeader else assistantHeader)
           @ [chNewline, chNewline] @ content m @ [chNewline]
           @ (if filter (\<lambda>x. role x \<noteq> System) ms = [] then []
              else separator @ markdown ms))"
  by (simp_all add: markdown_def join_Cons markdownBlock_def)

lemma markdown_demoHistory:
  "markdown demoHistory =
     [0xD83D, 0xDC64] @ js '' **User**'' @ [chNewline, chNewline] @ js ''hi''
     @ [chNewline, chNewline] @ js ''---'' @ [chNewline, chNewline]
     @ [0xD83E, 0xDD16] @ js '' **Assistant**'' @ [chNewline, chNewline] @ js ''yo''
     @ [chNewline]"
  by (simp add: markdown_def demoHistory_def markdownBlock_def userHeader_def
      assistantHeader_def separator_def char_defs)

text \<open>
  Where the clipboard is there, the exported text is handed to \<open>writeText\<close>, and a
  write that is rejected is reported through \<open>pushErrMsg\<close>; history, streaming
  buffer, \<open>isLoading\<close> and draft stay as they were and nothing is thrown.
\<close>

lemma copyAsMarkdown_rejected_write:
  assumes "writeText (markdown (messages st)) = Some err"
  shows "copyAsMarkdown (ClipboardApi writeText) st =
           (st\<lparr>clipboardWrites := clipboardWrites st @ [markdown (messages st)],
               errMsgs := errMsgs st @ [msgCopyFailed],
               consoleErrors := consoleErrors st @ [(js ''Copy failed:'', err)]\<rparr>,
            None)"
  using assms by (simp add: copyAsMarkdown_def Let_def pushErrMsg_def consoleError_def)

text \<open>
  C7: the export leaves out the system message and renders the others as blocks in
  order (\<open>markdown_export\<close>), and a rejected clipboard write is reported
  (\<open>copyAsMarkdown_rejected_write\<close>). But a copy can also fail because
  \<open>navigator.clipboard\<close> is absent, and that failure is not reported: with the
  history of a system message, a user message \<open>hi\<close> and an assistant message
  \<open>yo\<close>, \<open>copyAsMarkdown\<close> throws a \<open>TypeError\<close>, writes nothing to the
  clipboard and pushes no notification. The conversation state is unchanged.
\<close>

theorem copyAsMarkdown_clipboard_absent:
  "snd (copyAsMarkdown ClipboardAbsent (demoState\<lparr>messages := demoHistory\<rparr>)) =
     Some TypeError
   \<and> errMsgs (fst (copyAsMarkdown ClipboardAbsent (demoState\<lparr>messages := demoHistory\<rparr>)))
       = []
   \<and> infoMsgs (fst (copyAsMarkdown ClipboardAbsent (demoState\<lparr>messages := demoHistory\<rparr>)))
       = []
   \<and> clipboardWrites
       (fst (copyAsMarkdown ClipboardAbsent (demoState\<lparr>messages := demoHistory\<rparr>))) = []
   \<and> fst (copyAsMarkdown ClipboardAbsent (demoState\<lparr>messages := demoHistory\<rparr>)) =
       demoState\<lparr>messages := demoHistory\<rparr>"
  by (simp add: copyAsMarkdown_def demoState_def)

end
